theory Spec2Isabelle
  imports Main
begin

section \<open>The command gitlens.diffWithRevisionFrom\<close>

text \<open>
  A shallow embedding of \<^verbatim>\<open>DiffWithRevisionFromCommand.execute\<close>
  (src/commands/diffWithRevisionFrom.ts). A JavaScript string is a \<^typ>\<open>string\<close> with one
  list element for each UTF-16 code unit, so that \<^const>\<open>length\<close> is the source's
  \<^verbatim>\<open>.length\<close>; the literals of the source are ASCII, and the two glyphs it uses come from
  \<^verbatim>\<open>GlyphChars\<close> and \<^verbatim>\<open>pad\<close>, which are parameters here. A \<^verbatim>\<open>number\<close> that holds a
  line or a width is an \<^typ>\<open>int\<close>.

  Everything the command imports is a collaborator whose code is outside this file: it is a
  field of the record \<open>env\<close>, and every theorem holds for every value of it. An awaited call
  can reject; its outcome is a value of \<open>error + _\<close> with \<open>Inl\<close> the rejection. The calls the
  command makes are recorded, in order and with their outcome, in a list of events.
\<close>

subsection \<open>Data\<close>

datatype error = Rejected string

text \<open>\<^verbatim>\<open>GitFile\<close>: the two fields that the command reads.\<close>

record git_file =
  path :: string
  originalPath :: "string option"

text \<open>\<^verbatim>\<open>GitStashCommit\<close>, the pick of the stash picker. The command guards against a null
  \<^verbatim>\<open>ref\<close> (line 81), so the field is optional here.\<close>

record git_stash_commit =
  stash_ref :: "string option"
  files :: "git_file list option"

text \<open>\<^verbatim>\<open>GitReference\<close>, the pick of the reference picker. \<^verbatim>\<open>remote\<close> is read only after
  \<^verbatim>\<open>isBranchReference\<close> has answered true.\<close>

record git_reference =
  refType :: string
  ref :: "string option"
  remote :: bool

record 'u text_editor =
  document_uri :: 'u
  selection_active_line :: int

text \<open>\<^verbatim>\<open>DiffWithRevisionFromCommandArgs\<close> (lines 17-21).\<close>

record 'so diff_with_revision_from_args =
  line :: "int option"
  showOptions :: "'so option"
  stash :: "bool option"

text \<open>\<^verbatim>\<open>DiffWithCommandArgs\<close>, as the object literal of lines 99-110 fills it.\<close>

record 'u diff_with_side =
  sha :: string
  uri :: 'u
  title :: "string option"

record ('u, 'so) diff_with_args =
  repoPath :: string
  lhs :: "'u diff_with_side"
  rhs :: "'u diff_with_side"
  dw_line :: "int option"
  dw_showOptions :: "'so option"

text \<open>The first argument of the stash picker: \<^verbatim>\<open>this.container.git.stash(repoPath)?.getStash()\<close>,
  a promise that is not awaited by the command, or undefined.\<close>

type_synonym stash_promise = "(error + git_stash_commit list option) option"

datatype ('u, 'so) event =
    FromUri 'u "error + 'u"
  | ShowNoRepositoryWarningMessage string
  | ShowStashPicker stash_promise string string string "git_stash_commit \<Rightarrow> bool"
      "error + git_stash_commit option"
  | ShowReferencePicker string string string bool "error + git_reference option"
  | GetDiffStatus string string string "string list" "error + git_file list option"
  | ExecuteCommand string "('u, 'so) diff_with_args" "error + unit"

text \<open>The collaborators. A value of \<open>'u\<close> is a \<^verbatim>\<open>Uri\<close> object (a \<^verbatim>\<open>GitUri\<close> is one);
  \<open>uri_repoPath\<close>, \<open>uri_fsPath\<close> and \<open>getFormattedFileName\<close> read it, the last with its
  \<^verbatim>\<open>truncateTo\<close> option.\<close>

record ('u, 'so) env =
  getCommandUri :: "'u option \<Rightarrow> 'u text_editor option \<Rightarrow> 'u option"
  fromUri :: "'u \<Rightarrow> error + 'u"
  uri_repoPath :: "'u \<Rightarrow> string option"
  uri_fsPath :: "'u \<Rightarrow> string"
  getFormattedFileName :: "'u \<Rightarrow> int option \<Rightarrow> string"
  getRelativePath :: "'u \<Rightarrow> string \<Rightarrow> string"
  getAbsoluteUri :: "string \<Rightarrow> string \<Rightarrow> 'u"
  getStash :: "string \<Rightarrow> stash_promise"
  showStashPicker :: "stash_promise \<Rightarrow> string \<Rightarrow> string \<Rightarrow> string \<Rightarrow>
    (git_stash_commit \<Rightarrow> bool) \<Rightarrow> error + git_stash_commit option"
  showReferencePicker :: "string \<Rightarrow> string \<Rightarrow> string \<Rightarrow> bool \<Rightarrow> error + git_reference option"
  isBranchReference :: "git_reference \<Rightarrow> bool"
  getDiffStatus :: "string \<Rightarrow> string \<Rightarrow> string \<Rightarrow> string list \<Rightarrow> error + git_file list option"
  executeCommand :: "string \<Rightarrow> ('u, 'so) diff_with_args \<Rightarrow> error + unit"
  basename :: "string \<Rightarrow> string"
  shortenRevision :: "string \<Rightarrow> string"
  pad :: "string \<Rightarrow> nat \<Rightarrow> nat \<Rightarrow> string"
  GlyphChars_Dot :: string
  quickPickTitleMaxChars :: int

subsection \<open>The arguments object\<close>

text \<open>The caller's \<^verbatim>\<open>args\<close> is a reference to an object. The store is a list of objects and
  an address is an index into it; line 40 allocates a new object at the end.\<close>

type_synonym addr = nat
type_synonym 'so heap = "'so diff_with_revision_from_args list"

definition empty_args :: "'so diff_with_revision_from_args" where
  "empty_args = \<lparr>line = None, showOptions = None, stash = None\<rparr>"

text \<open>\<^verbatim>\<open>{ ...args }\<close>: the fields of the object, none for an undefined \<^verbatim>\<open>args\<close>. An address
  outside the store does not arise in JavaScript; it reads as undefined.\<close>

definition spread :: "'so heap \<Rightarrow> addr option \<Rightarrow> 'so diff_with_revision_from_args" where
  "spread h args =
     (case args of
        None \<Rightarrow> empty_args
      | Some a \<Rightarrow> if a < length h then h ! a else empty_args)"

subsection \<open>The picker step (lines 47-79)\<close>

text \<open>The outcome of the step: no pick (the returns of lines 61 and 75), a pick whose
  \<^verbatim>\<open>ref\<close> is null (the return of line 81), or \<^verbatim>\<open>ref\<close> and \<^verbatim>\<open>sha\<close>. The source also
  builds a \<^verbatim>\<open>sha\<close> from a null \<^verbatim>\<open>ref\<close>; line 81 returns before anything reads it.\<close>

datatype picked = NoPick | NullRef | Picked string string

text \<open>The filter of line 58.\<close>

definition stash_filter :: "string \<Rightarrow> git_stash_commit \<Rightarrow> bool" where
  "stash_filter p c =
     (case files c of
        None \<Rightarrow> True
      | Some fs \<Rightarrow> list_ex (\<lambda>f. path f = p \<or> originalPath f = Some p) fs)"

definition stash_title :: "('u, 'so) env \<Rightarrow> string" where
  "stash_title env = ''Open Changes with Stash'' @ pad env (GlyphChars_Dot env) 2 2"

definition reference_title :: "('u, 'so) env \<Rightarrow> string" where
  "reference_title env = ''Open Changes with Branch or Tag'' @ pad env (GlyphChars_Dot env) 2 2"

text \<open>The title handed to a picker (lines 53 and 69).\<close>

definition picker_title :: "('u, 'so) env \<Rightarrow> string \<Rightarrow> 'u \<Rightarrow> string" where
  "picker_title env t g =
     t @ getFormattedFileName env g (Some (quickPickTitleMaxChars env - int (length t)))"

definition stash_empty :: "('u, 'so) env \<Rightarrow> 'u \<Rightarrow> string" where
  "stash_empty env g =
     ''No stashes with '' @ [CHR 0x27] @ getFormattedFileName env g None @ [CHR 0x27] @ '' found''"

text \<open>Lines 61-64, with the guard of line 81: what the command makes of the answer of the
  stash picker.\<close>

definition stash_picked :: "error + git_stash_commit option \<Rightarrow> error + picked" where
  "stash_picked res =
     (case res of
        Inl e \<Rightarrow> Inl e
      | Inr None \<Rightarrow> Inr NoPick
      | Inr (Some pick) \<Rightarrow>
          (case stash_ref pick of
             None \<Rightarrow> Inr NullRef
           | Some r \<Rightarrow> Inr (Picked r r)))"

text \<open>Lines 75-78, with the guard of line 81: what the command makes of the answer of the
  reference picker.\<close>

definition reference_picked ::
  "('u, 'so) env \<Rightarrow> error + git_reference option \<Rightarrow> error + picked" where
  "reference_picked env res =
     (case res of
        Inl e \<Rightarrow> Inl e
      | Inr None \<Rightarrow> Inr NoPick
      | Inr (Some pick) \<Rightarrow>
          (case ref pick of
             None \<Rightarrow> Inr NullRef
           | Some r \<Rightarrow>
               Inr (Picked r (if isBranchReference env pick \<and> remote pick
                              then ''remotes/'' @ r else r))))"

text \<open>Lines 50-64.\<close>

definition pick_stash ::
  "('u, 'so) env \<Rightarrow> 'u \<Rightarrow> string \<Rightarrow> string \<Rightarrow> (error + picked) \<times> ('u, 'so) event" where
  "pick_stash env g rp p =
     (let st = getStash env rp;
          t = picker_title env (stash_title env) g;
          ph = ''Choose a stash to compare with'';
          res = showStashPicker env st t ph (stash_empty env g) (stash_filter p)
      in (stash_picked res, ShowStashPicker st t ph (stash_empty env g) (stash_filter p) res))"

text \<open>Lines 66-78.\<close>

definition pick_reference ::
  "('u, 'so) env \<Rightarrow> 'u \<Rightarrow> string \<Rightarrow> (error + picked) \<times> ('u, 'so) event" where
  "pick_reference env g rp =
     (let t = picker_title env (reference_title env) g;
          ph = ''Choose a reference (branch, tag, etc) to compare with'';
          res = showReferencePicker env rp t ph True
      in (reference_picked env res, ShowReferencePicker rp t ph True res))"

subsection \<open>The rename check and the request (lines 83-111)\<close>

definition revision_title :: "('u, 'so) env \<Rightarrow> string \<Rightarrow> string \<Rightarrow> string" where
  "revision_title env file r = basename env file @ '' ('' @ shortenRevision env r @ '')''"

text \<open>Lines 83-96: \<^verbatim>\<open>renamedUri\<close> and \<^verbatim>\<open>renamedTitle\<close>.\<close>

definition renamed ::
  "('u, 'so) env \<Rightarrow> string \<Rightarrow> string \<Rightarrow> string \<Rightarrow> git_file list option \<Rightarrow> 'u option \<times> string option" where
  "renamed env rp p r fls =
     (case fls of
        None \<Rightarrow> (None, None)
      | Some fs \<Rightarrow>
          (case find (\<lambda>s. path s = p) fs of
             None \<Rightarrow> (None, None)
           | Some rename \<Rightarrow>
               (case originalPath rename of
                  None \<Rightarrow> (None, None)
                | Some orig \<Rightarrow> (Some (getAbsoluteUri env orig rp), Some (revision_title env orig r)))))"

text \<open>Lines 99-110.\<close>

definition request ::
  "('u, 'so) env \<Rightarrow> 'u \<Rightarrow> string \<Rightarrow> string \<Rightarrow> string \<Rightarrow> 'u option \<times> string option \<Rightarrow>
   'so diff_with_revision_from_args \<Rightarrow> ('u, 'so) diff_with_args" where
  "request env g rp r s rn args =
     \<lparr>repoPath = rp,
      lhs = \<lparr>sha = s,
             uri = (case fst rn of Some renamedUri \<Rightarrow> renamedUri | None \<Rightarrow> g),
             title = Some (case snd rn of
                             Some renamedTitle \<Rightarrow> renamedTitle
                           | None \<Rightarrow> revision_title env (uri_fsPath env g) r)\<rparr>,
      rhs = \<lparr>sha = [], uri = g, title = None\<rparr>,
      dw_line = line args,
      dw_showOptions = showOptions args\<rparr>"

text \<open>Lines 86-111, for a non-null \<^verbatim>\<open>ref\<close>.\<close>

definition diff_with ::
  "('u, 'so) env \<Rightarrow> 'u \<Rightarrow> string \<Rightarrow> string \<Rightarrow> string \<Rightarrow> string \<Rightarrow>
   'so diff_with_revision_from_args \<Rightarrow> (error + unit) \<times> ('u, 'so) event list" where
  "diff_with env g rp p r s args =
     (let q = getDiffStatus env rp ''HEAD'' r [''R'', ''C''];
          ev = GetDiffStatus rp ''HEAD'' r [''R'', ''C''] q
      in case q of
           Inl e \<Rightarrow> (Inl e, [ev])
         | Inr fls \<Rightarrow>
             (let req = request env g rp r s (renamed env rp p r fls) args;
                  res = executeCommand env ''gitlens.diffWith'' req
              in (res, [ev, ExecuteCommand ''gitlens.diffWith'' req res])))"

subsection \<open>execute (lines 29-112)\<close>

text \<open>Lines 40-43: the copy of \<^verbatim>\<open>args\<close> at a new address, and the default of its line.\<close>

definition copy_args :: "'so heap \<Rightarrow> addr option \<Rightarrow> 'u text_editor option \<Rightarrow> 'so heap" where
  "copy_args h args editor =
     (let a = length h;
          h1 = h @ [spread h args]
      in if line (h1 ! a) = None
         then h1[a := (h1 ! a)\<lparr>line :=
                Some (case editor of None \<Rightarrow> 0 | Some ed \<Rightarrow> selection_active_line ed)\<rparr>]
         else h1)"

text \<open>The command returns its outcome (\<open>Inl\<close> when an awaited call rejected), the store and
  the events.\<close>

definition execute ::
  "('u, 'so) env \<Rightarrow> 'u text_editor option \<Rightarrow> 'u option \<Rightarrow> addr option \<Rightarrow> 'so heap \<Rightarrow>
   (error + unit) \<times> 'so heap \<times> ('u, 'so) event list" where
  "execute env editor uri0 args h =
     (case getCommandUri env uri0 editor of
        None \<Rightarrow> (Inr (), h, [])
      | Some u \<Rightarrow>
          (let f = fromUri env u in
           case f of
             Inl e \<Rightarrow> (Inl e, h, [FromUri u f])
           | Inr g \<Rightarrow>
               (case uri_repoPath env g of
                  None \<Rightarrow>
                    (Inr (), h,
                     [FromUri u f, ShowNoRepositoryWarningMessage ''Unable to open file comparison''])
                | Some rp \<Rightarrow>
                    if rp = []
                    then (Inr (), h,
                          [FromUri u f, ShowNoRepositoryWarningMessage ''Unable to open file comparison''])
                    else
                      (let a = length h;
                           h' = copy_args h args editor;
                           p = getRelativePath env g rp;
                           pk = (if stash (h' ! a) = Some True
                                 then pick_stash env g rp p
                                 else pick_reference env g rp)
                       in case fst pk of
                            Inl e \<Rightarrow> (Inl e, h', [FromUri u f, snd pk])
                          | Inr NoPick \<Rightarrow> (Inr (), h', [FromUri u f, snd pk])
                          | Inr NullRef \<Rightarrow> (Inr (), h', [FromUri u f, snd pk])
                          | Inr (Picked r s) \<Rightarrow>
                              (let d = diff_with env g rp p r s (h' ! a)
                               in (fst d, h', [FromUri u f, snd pk] @ snd d))))))"

text \<open>What a run is observed by.\<close>

definition outcome :: "(error + unit) \<times> 'so heap \<times> ('u, 'so) event list \<Rightarrow> error + unit" where
  "outcome x = fst x"

definition store :: "(error + unit) \<times> 'so heap \<times> ('u, 'so) event list \<Rightarrow> 'so heap" where
  "store x = fst (snd x)"

definition events :: "(error + unit) \<times> 'so heap \<times> ('u, 'so) event list \<Rightarrow> ('u, 'so) event list" where
  "events x = snd (snd x)"

subsection \<open>The truncation of the file name\<close>

text \<open>Modelled from the spec: \<^verbatim>\<open>getFormattedFileName\<close> with its \<^verbatim>\<open>truncateTo\<close> option, whose
  code is not in src/. The spec has the picker title suffixed with the file display name
  truncated "to a fixed maximum title width": the name of \<open>g\<close> formatted with
  \<^verbatim>\<open>truncateTo: n\<close> is at most \<open>n\<close> code units long.\<close>

definition truncates :: "('u, 'so) env \<Rightarrow> 'u \<Rightarrow> int \<Rightarrow> bool" where
  "truncates env g n = (int (length (getFormattedFileName env g (Some n))) \<le> n)"

subsection \<open>Example collaborators\<close>

text \<open>Sample values of the collaborators, at which the theorems below are instantiated. A
  \<^verbatim>\<open>Uri\<close> is the string of its path; every file below \<^verbatim>\<open>/repo/\<close> is in the repository
  \<^verbatim>\<open>/repo\<close> and no other file is in one; the pickers return no selection and the status
  query returns null.\<close>

definition demo_basename :: "string \<Rightarrow> string" where
  "demo_basename s = rev (takeWhile (\<lambda>c. c \<noteq> CHR ''/'') (rev s))"

definition demo_env :: "(string, unit) env" where
  "demo_env =
     \<lparr>getCommandUri = (\<lambda>u ed. case u of Some x \<Rightarrow> Some x | None \<Rightarrow> map_option document_uri ed),
      fromUri = Inr,
      uri_repoPath = (\<lambda>u. if take 6 u = ''/repo/'' then Some ''/repo'' else None),
      uri_fsPath = (\<lambda>u. u),
      getFormattedFileName =
        (\<lambda>u n. case n of None \<Rightarrow> demo_basename u | Some k \<Rightarrow> take (nat k) (demo_basename u)),
      getRelativePath = (\<lambda>u rp. drop (length rp + 1) u),
      getAbsoluteUri = (\<lambda>p rp. rp @ ''/'' @ p),
      getStash = (\<lambda>rp. None),
      showStashPicker = (\<lambda>st t ph em flt. Inr None),
      showReferencePicker = (\<lambda>rp t ph ar. Inr None),
      isBranchReference = (\<lambda>r. refType r = ''branch''),
      getDiffStatus = (\<lambda>rp a b fl. Inr None),
      executeCommand = (\<lambda>c req. Inr ()),
      basename = demo_basename,
      shortenRevision = (\<lambda>r. r),
      pad = (\<lambda>s b a. replicate b (CHR '' '') @ s @ replicate a (CHR '' '')),
      GlyphChars_Dot = ''.'',
      quickPickTitleMaxChars = 80\<rparr>"

text \<open>The user picks the local branch \<^verbatim>\<open>feature\<close>.\<close>

definition env_local :: "(string, unit) env" where
  "env_local = demo_env
     \<lparr>showReferencePicker :=
        (\<lambda>rp t ph ar. Inr (Some \<lparr>refType = ''branch'', ref = Some ''feature'', remote = False\<rparr>))\<rparr>"

text \<open>The user picks the remote branch \<^verbatim>\<open>origin/main\<close>, and \<^verbatim>\<open>a.ts\<close> was
  \<^verbatim>\<open>old/a.ts\<close> there.\<close>

definition env_remote :: "(string, unit) env" where
  "env_remote = demo_env
     \<lparr>showReferencePicker :=
        (\<lambda>rp t ph ar. Inr (Some \<lparr>refType = ''branch'', ref = Some ''origin/main'', remote = True\<rparr>)),
      getDiffStatus :=
        (\<lambda>rp a b fl. Inr (Some [\<lparr>path = ''b.ts'', originalPath = Some ''c.ts''\<rparr>,
                                 \<lparr>path = ''a.ts'', originalPath = Some ''old/a.ts''\<rparr>]))\<rparr>"

text \<open>The user picks a stash.\<close>

definition env_stash :: "(string, unit) env" where
  "env_stash = demo_env
     \<lparr>showStashPicker :=
        (\<lambda>st t ph em flt. Inr (Some \<lparr>stash_ref = Some ''4f2a91cd3e'', files = None\<rparr>))\<rparr>"

text \<open>The user picks a stash, and \<^verbatim>\<open>a.ts\<close> was \<^verbatim>\<open>old/a.ts\<close> there.\<close>

definition env_stash_renamed :: "(string, unit) env" where
  "env_stash_renamed = env_stash
     \<lparr>getDiffStatus :=
        (\<lambda>rp a b fl. Inr (Some [\<lparr>path = ''b.ts'', originalPath = Some ''c.ts''\<rparr>,
                                 \<lparr>path = ''a.ts'', originalPath = Some ''old/a.ts''\<rparr>]))\<rparr>"

text \<open>The request for \<^verbatim>\<open>/repo/a.ts\<close> with the given left-hand sha, uri and title, and line.\<close>

definition demo_request :: "string \<Rightarrow> string \<Rightarrow> string \<Rightarrow> int \<Rightarrow> (string, unit) diff_with_args" where
  "demo_request s u t l =
     \<lparr>repoPath = ''/repo'',
      lhs = \<lparr>sha = s, uri = u, title = Some t\<rparr>,
      rhs = \<lparr>sha = [], uri = ''/repo/a.ts'', title = None\<rparr>,
      dw_line = Some l,
      dw_showOptions = None\<rparr>"

text \<open>A file whose name is longer than a picker title has room for, and the title of the
  reference picker for it.\<close>

definition long_uri :: string where
  "long_uri = ''/repo/a_file_with_a_very_long_name_that_does_not_fit_into_the_title_of_a_picker.ts''"

definition long_title :: string where
  "long_title = ''Open Changes with Branch or Tag  .  a_file_with_a_very_long_name_that_does_not_f''"

section \<open>The runs of execute\<close>

text \<open>Every run has one of eight shapes: no file, a rejected \<^verbatim>\<open>GitUri.fromUri\<close>, no
  repository, a rejected picker, no pick, a pick with a null \<^verbatim>\<open>ref\<close>, a rejected status
  query, and the dispatch.\<close>

lemma execute_cases [case_names no_uri rejected no_repo picker_rejected no_pick null_ref
    status_rejected dispatched]:
  assumes "execute env editor uri0 args h = (Inr (), h, []) \<Longrightarrow> P"
    and "\<And>u e. execute env editor uri0 args h = (Inl e, h, [FromUri u (Inl e)]) \<Longrightarrow> P"
    and "\<And>u g. uri_repoPath env g = None \<or> uri_repoPath env g = Some [] \<Longrightarrow>
           execute env editor uri0 args h =
             (Inr (), h, [FromUri u (Inr g),
                          ShowNoRepositoryWarningMessage ''Unable to open file comparison'']) \<Longrightarrow> P"
    and "\<And>u g rp pk e.
           uri_repoPath env g = Some rp \<Longrightarrow> rp \<noteq> [] \<Longrightarrow>
           pk = pick_stash env g rp (getRelativePath env g rp) \<or> pk = pick_reference env g rp \<Longrightarrow>
           fst pk = Inl e \<Longrightarrow>
           execute env editor uri0 args h =
             (Inl e, copy_args h args editor, [FromUri u (Inr g), snd pk]) \<Longrightarrow> P"
    and "\<And>u g rp pk.
           uri_repoPath env g = Some rp \<Longrightarrow> rp \<noteq> [] \<Longrightarrow>
           pk = pick_stash env g rp (getRelativePath env g rp) \<or> pk = pick_reference env g rp \<Longrightarrow>
           fst pk = Inr NoPick \<Longrightarrow>
           execute env editor uri0 args h =
             (Inr (), copy_args h args editor, [FromUri u (Inr g), snd pk]) \<Longrightarrow> P"
    and "\<And>u g rp pk.
           uri_repoPath env g = Some rp \<Longrightarrow> rp \<noteq> [] \<Longrightarrow>
           pk = pick_stash env g rp (getRelativePath env g rp) \<or> pk = pick_reference env g rp \<Longrightarrow>
           fst pk = Inr NullRef \<Longrightarrow>
           execute env editor uri0 args h =
             (Inr (), copy_args h args editor, [FromUri u (Inr g), snd pk]) \<Longrightarrow> P"
    and "\<And>u g rp pk r s e.
           uri_repoPath env g = Some rp \<Longrightarrow> rp \<noteq> [] \<Longrightarrow>
           pk = pick_stash env g rp (getRelativePath env g rp) \<or> pk = pick_reference env g rp \<Longrightarrow>
           fst pk = Inr (Picked r s) \<Longrightarrow>
           getDiffStatus env rp ''HEAD'' r [''R'', ''C''] = Inl e \<Longrightarrow>
           execute env editor uri0 args h =
             (Inl e, copy_args h args editor,
              [FromUri u (Inr g), snd pk, GetDiffStatus rp ''HEAD'' r [''R'', ''C''] (Inl e)]) \<Longrightarrow> P"
    and "\<And>u g rp pk r s fls req.
           uri_repoPath env g = Some rp \<Longrightarrow> rp \<noteq> [] \<Longrightarrow>
           pk = pick_stash env g rp (getRelativePath env g rp) \<or> pk = pick_reference env g rp \<Longrightarrow>
           fst pk = Inr (Picked r s) \<Longrightarrow>
           getDiffStatus env rp ''HEAD'' r [''R'', ''C''] = Inr fls \<Longrightarrow>
           req = request env g rp r s (renamed env rp (getRelativePath env g rp) r fls)
                   (copy_args h args editor ! length h) \<Longrightarrow>
           execute env editor uri0 args h =
             (executeCommand env ''gitlens.diffWith'' req, copy_args h args editor,
              [FromUri u (Inr g), snd pk, GetDiffStatus rp ''HEAD'' r [''R'', ''C''] (Inr fls),
               ExecuteCommand ''gitlens.diffWith'' req (executeCommand env ''gitlens.diffWith'' req)]) \<Longrightarrow> P"
  shows P
proof (cases "getCommandUri env uri0 editor")
  case None
  then show P using assms(1) by (simp add: execute_def)
next
  case (Some u)
  show P
  proof (cases "fromUri env u")
    case (Inl e)
    with Some show P using assms(2) by (simp add: execute_def)
  next
    case (Inr g)
    show P
    proof (cases "uri_repoPath env g = None \<or> uri_repoPath env g = Some []")
      case True
      with Some Inr have "execute env editor uri0 args h =
             (Inr (), h, [FromUri u (Inr g),
                          ShowNoRepositoryWarningMessage ''Unable to open file comparison''])"
        by (auto simp: execute_def)
      with True show P by (rule assms(3))
    next
      case False
      then obtain rp where rp: "uri_repoPath env g = Some rp" "rp \<noteq> []" by auto
      define pk where "pk = (if stash (copy_args h args editor ! length h) = Some True
                             then pick_stash env g rp (getRelativePath env g rp)
                             else pick_reference env g rp)"
      have pk: "pk = pick_stash env g rp (getRelativePath env g rp) \<or> pk = pick_reference env g rp"
        by (simp add: pk_def)
      have ex: "execute env editor uri0 args h =
        (case fst pk of
           Inl e \<Rightarrow> (Inl e, copy_args h args editor, [FromUri u (Inr g), snd pk])
         | Inr NoPick \<Rightarrow> (Inr (), copy_args h args editor, [FromUri u (Inr g), snd pk])
         | Inr NullRef \<Rightarrow> (Inr (), copy_args h args editor, [FromUri u (Inr g), snd pk])
         | Inr (Picked r s) \<Rightarrow>
             (let d = diff_with env g rp (getRelativePath env g rp) r s (copy_args h args editor ! length h)
              in (fst d, copy_args h args editor, [FromUri u (Inr g), snd pk] @ snd d)))"
        using Some Inr rp unfolding pk_def by (simp add: execute_def Let_def)
      show P
      proof (cases "fst pk")
        case (Inl e)
        with ex show P using assms(4) [OF rp pk] by simp
      next
        case sel: (Inr x)
        show P
        proof (cases x)
          case NoPick
          with sel ex show P using assms(5) [OF rp pk] by simp
        next
          case NullRef
          with sel ex show P using assms(6) [OF rp pk] by simp
        next
          case (Picked r s)
          show P
          proof (cases "getDiffStatus env rp ''HEAD'' r [''R'', ''C'']")
            case (Inl e)
            with Picked sel ex show P using assms(7) [OF rp pk _ Inl]
              by (simp add: diff_with_def Let_def)
          next
            case q: (Inr fls)
            with Picked sel ex show P using assms(8) [OF rp pk _ q refl]
              by (simp add: diff_with_def Let_def)
          qed
        qed
      qed
    qed
  qed
qed

lemma stash_picked_Inl: "stash_picked res = Inl e \<longleftrightarrow> res = Inl e"
  by (simp add: stash_picked_def split: sum.splits option.splits)

lemma stash_picked_NoPick: "stash_picked res = Inr NoPick \<longleftrightarrow> res = Inr None"
  by (simp add: stash_picked_def split: sum.splits option.splits)

lemma stash_picked_NullRef:
  "stash_picked res = Inr NullRef \<longleftrightarrow> (\<exists>c. res = Inr (Some c) \<and> stash_ref c = None)"
  by (simp add: stash_picked_def split: sum.splits option.splits)

lemma stash_picked_Picked:
  "stash_picked res = Inr (Picked r s) \<longleftrightarrow> (\<exists>c. res = Inr (Some c) \<and> stash_ref c = Some r \<and> s = r)"
  by (auto simp: stash_picked_def split: sum.splits option.splits)

lemma reference_picked_Inl: "reference_picked env res = Inl e \<longleftrightarrow> res = Inl e"
  by (simp add: reference_picked_def split: sum.splits option.splits)

lemma reference_picked_NoPick: "reference_picked env res = Inr NoPick \<longleftrightarrow> res = Inr None"
  by (simp add: reference_picked_def split: sum.splits option.splits)

lemma reference_picked_NullRef:
  "reference_picked env res = Inr NullRef \<longleftrightarrow> (\<exists>c. res = Inr (Some c) \<and> ref c = None)"
  by (simp add: reference_picked_def split: sum.splits option.splits)

lemma reference_picked_Picked:
  "reference_picked env res = Inr (Picked r s) \<longleftrightarrow>
     (\<exists>c. res = Inr (Some c) \<and> ref c = Some r \<and>
          s = (if isBranchReference env c \<and> remote c then ''remotes/'' @ r else r))"
  by (auto simp: reference_picked_def split: sum.splits option.splits)

lemmas picked_simps = stash_picked_Inl stash_picked_NoPick stash_picked_NullRef stash_picked_Picked
  reference_picked_Inl reference_picked_NoPick reference_picked_NullRef reference_picked_Picked

lemma fst_pick_stash:
  "fst (pick_stash env g rp p) =
     stash_picked (showStashPicker env (getStash env rp) (picker_title env (stash_title env) g)
       ''Choose a stash to compare with'' (stash_empty env g) (stash_filter p))"
  by (simp add: pick_stash_def Let_def)

lemma snd_pick_stash:
  "snd (pick_stash env g rp p) =
     ShowStashPicker (getStash env rp) (picker_title env (stash_title env) g)
       ''Choose a stash to compare with'' (stash_empty env g) (stash_filter p)
       (showStashPicker env (getStash env rp) (picker_title env (stash_title env) g)
          ''Choose a stash to compare with'' (stash_empty env g) (stash_filter p))"
  by (simp add: pick_stash_def Let_def)

lemma fst_pick_reference:
  "fst (pick_reference env g rp) =
     reference_picked env (showReferencePicker env rp (picker_title env (reference_title env) g)
       ''Choose a reference (branch, tag, etc) to compare with'' True)"
  by (simp add: pick_reference_def Let_def)

lemma snd_pick_reference:
  "snd (pick_reference env g rp) =
     ShowReferencePicker rp (picker_title env (reference_title env) g)
       ''Choose a reference (branch, tag, etc) to compare with'' True
       (showReferencePicker env rp (picker_title env (reference_title env) g)
          ''Choose a reference (branch, tag, etc) to compare with'' True)"
  by (simp add: pick_reference_def Let_def)

lemmas pick_simps = fst_pick_stash snd_pick_stash fst_pick_reference snd_pick_reference picked_simps

lemmas run_simps = events_def outcome_def store_def

lemma request_sel:
  "repoPath (request env g rp r s rn a) = rp"
  "sha (lhs (request env g rp r s rn a)) = s"
  "uri (lhs (request env g rp r s rn a)) = (case fst rn of Some x \<Rightarrow> x | None \<Rightarrow> g)"
  "title (lhs (request env g rp r s rn a)) =
     Some (case snd rn of Some x \<Rightarrow> x | None \<Rightarrow> revision_title env (uri_fsPath env g) r)"
  "sha (rhs (request env g rp r s rn a)) = []"
  "uri (rhs (request env g rp r s rn a)) = g"
  "dw_line (request env g rp r s rn a) = line a"
  "dw_showOptions (request env g rp r s rn a) = showOptions a"
  by (simp_all add: request_def)

lemma renamed_found:
  "find (\<lambda>s. path s = p) fs = Some s \<Longrightarrow> originalPath s = Some orig \<Longrightarrow>
   renamed env rp p r (Some fs) = (Some (getAbsoluteUri env orig rp), Some (revision_title env orig r))"
  by (simp add: renamed_def)

lemma renamed_not_found:
  "\<nexists>fs s orig. fls = Some fs \<and> find (\<lambda>s. path s = p) fs = Some s \<and> originalPath s = Some orig \<Longrightarrow>
   renamed env rp p r fls = (None, None)"
  by (auto simp: renamed_def split: option.splits)


lemma pick_event_distinct:
  assumes "pk = pick_stash env g rp p \<or> pk = pick_reference env g rp"
  shows "snd pk \<noteq> ExecuteCommand c req res" "snd pk \<noteq> GetDiffStatus rp' a b fl q"
    "snd pk \<noteq> FromUri u f" "snd pk \<noteq> ShowNoRepositoryWarningMessage m"
    "ExecuteCommand c req res \<noteq> snd pk" "GetDiffStatus rp' a b fl q \<noteq> snd pk"
    "FromUri u f \<noteq> snd pk" "ShowNoRepositoryWarningMessage m \<noteq> snd pk"
  using assms by (auto simp: snd_pick_stash snd_pick_reference)

lemma take_copy_args: "take (length h) (copy_args h args editor) = h"
  by (simp add: copy_args_def Let_def)

lemma line_copy_args:
  "line (copy_args h args editor ! length h) =
     Some (case line (spread h args) of
             Some l \<Rightarrow> l
           | None \<Rightarrow> (case editor of None \<Rightarrow> 0 | Some ed \<Rightarrow> selection_active_line ed))"
  by (simp add: copy_args_def Let_def split: option.splits)

lemma showOptions_copy_args:
  "showOptions (copy_args h args editor ! length h) = showOptions (spread h args)"
  by (simp add: copy_args_def Let_def)

subsection \<open>The example runs\<close>

lemmas demo_defs = demo_env_def env_local_def env_remote_def env_stash_def env_stash_renamed_def
  demo_basename_def demo_request_def

lemmas model_defs = execute_def copy_args_def spread_def empty_args_def pick_stash_def
  pick_reference_def stash_picked_def reference_picked_def diff_with_def request_def renamed_def
  revision_title_def picker_title_def stash_title_def reference_title_def stash_empty_def Let_def

lemma run_cancelled:
  "execute demo_env None (Some ''/repo/a.ts'') None [] =
     (Inr (), [\<lparr>line = Some 0, showOptions = None, stash = None\<rparr>],
      [FromUri ''/repo/a.ts'' (Inr ''/repo/a.ts''),
       ShowReferencePicker ''/repo'' ''Open Changes with Branch or Tag  .  a.ts''
         ''Choose a reference (branch, tag, etc) to compare with'' True (Inr None)])"
  by (simp add: model_defs demo_defs eval_nat_numeral)

lemma run_no_repository:
  "execute demo_env None (Some ''/tmp/a.ts'') None [] =
     (Inr (), [],
      [FromUri ''/tmp/a.ts'' (Inr ''/tmp/a.ts''),
       ShowNoRepositoryWarningMessage ''Unable to open file comparison''])"
  by (simp add: model_defs demo_defs eval_nat_numeral)

lemma run_local:
  "execute env_local None (Some ''/repo/a.ts'') None [] =
     (Inr (), [\<lparr>line = Some 0, showOptions = None, stash = None\<rparr>],
      [FromUri ''/repo/a.ts'' (Inr ''/repo/a.ts''),
       ShowReferencePicker ''/repo'' ''Open Changes with Branch or Tag  .  a.ts''
         ''Choose a reference (branch, tag, etc) to compare with'' True
         (Inr (Some \<lparr>refType = ''branch'', ref = Some ''feature'', remote = False\<rparr>)),
       GetDiffStatus ''/repo'' ''HEAD'' ''feature'' [''R'', ''C''] (Inr None),
       ExecuteCommand ''gitlens.diffWith''
         (demo_request ''feature'' ''/repo/a.ts'' ''a.ts (feature)'' 0) (Inr ())])"
  by (simp add: model_defs demo_defs eval_nat_numeral)

lemma run_remote:
  "execute env_remote None (Some ''/repo/a.ts'') None [] =
     (Inr (), [\<lparr>line = Some 0, showOptions = None, stash = None\<rparr>],
      [FromUri ''/repo/a.ts'' (Inr ''/repo/a.ts''),
       ShowReferencePicker ''/repo'' ''Open Changes with Branch or Tag  .  a.ts''
         ''Choose a reference (branch, tag, etc) to compare with'' True
         (Inr (Some \<lparr>refType = ''branch'', ref = Some ''origin/main'', remote = True\<rparr>)),
       GetDiffStatus ''/repo'' ''HEAD'' ''origin/main'' [''R'', ''C'']
         (Inr (Some [\<lparr>path = ''b.ts'', originalPath = Some ''c.ts''\<rparr>,
                     \<lparr>path = ''a.ts'', originalPath = Some ''old/a.ts''\<rparr>])),
       ExecuteCommand ''gitlens.diffWith''
         (demo_request ''remotes/origin/main'' ''/repo/old/a.ts'' ''a.ts (origin/main)'' 0) (Inr ())])"
  by (simp add: model_defs demo_defs eval_nat_numeral)

text \<open>The stash run: the caller's arguments object is at address 0, asks for the stash
  picker and has no line; the editor's selection is on line 7.\<close>

lemma run_stash:
  "execute env_stash (Some \<lparr>document_uri = ''/repo/a.ts'', selection_active_line = 7\<rparr>) None
     (Some 0) [\<lparr>line = None, showOptions = None, stash = Some True\<rparr>] =
     (Inr (),
      [\<lparr>line = None, showOptions = None, stash = Some True\<rparr>,
       \<lparr>line = Some 7, showOptions = None, stash = Some True\<rparr>],
      [FromUri ''/repo/a.ts'' (Inr ''/repo/a.ts''),
       ShowStashPicker None ''Open Changes with Stash  .  a.ts'' ''Choose a stash to compare with''
         (''No stashes with '' @ [CHR 0x27] @ ''a.ts'' @ [CHR 0x27] @ '' found'')
         (stash_filter ''a.ts'')
         (Inr (Some \<lparr>stash_ref = Some ''4f2a91cd3e'', files = None\<rparr>)),
       GetDiffStatus ''/repo'' ''HEAD'' ''4f2a91cd3e'' [''R'', ''C''] (Inr None),
       ExecuteCommand ''gitlens.diffWith''
         (demo_request ''4f2a91cd3e'' ''/repo/a.ts'' ''a.ts (4f2a91cd3e)'' 7) (Inr ())])"
  by (simp add: model_defs demo_defs eval_nat_numeral)

lemma run_stash_renamed:
  "execute env_stash_renamed None (Some ''/repo/a.ts'') (Some 0)
     [\<lparr>line = None, showOptions = None, stash = Some True\<rparr>] =
     (Inr (),
      [\<lparr>line = None, showOptions = None, stash = Some True\<rparr>,
       \<lparr>line = Some 0, showOptions = None, stash = Some True\<rparr>],
      [FromUri ''/repo/a.ts'' (Inr ''/repo/a.ts''),
       ShowStashPicker None ''Open Changes with Stash  .  a.ts'' ''Choose a stash to compare with''
         (''No stashes with '' @ [CHR 0x27] @ ''a.ts'' @ [CHR 0x27] @ '' found'')
         (stash_filter ''a.ts'')
         (Inr (Some \<lparr>stash_ref = Some ''4f2a91cd3e'', files = None\<rparr>)),
       GetDiffStatus ''/repo'' ''HEAD'' ''4f2a91cd3e'' [''R'', ''C'']
         (Inr (Some [\<lparr>path = ''b.ts'', originalPath = Some ''c.ts''\<rparr>,
                     \<lparr>path = ''a.ts'', originalPath = Some ''old/a.ts''\<rparr>])),
       ExecuteCommand ''gitlens.diffWith''
         (demo_request ''4f2a91cd3e'' ''/repo/old/a.ts'' ''a.ts (4f2a91cd3e)'' 0) (Inr ())])"
  by (simp add: model_defs demo_defs eval_nat_numeral)

lemma run_long:
  "execute demo_env None (Some long_uri) None [] =
     (Inr (), [\<lparr>line = Some 0, showOptions = None, stash = None\<rparr>],
      [FromUri long_uri (Inr long_uri),
       ShowReferencePicker ''/repo'' long_title
         ''Choose a reference (branch, tag, etc) to compare with'' True (Inr None)])"
  by (simp add: model_defs demo_defs long_uri_def long_title_def eval_nat_numeral)

section \<open>The claims\<close>

text \<open>C1. In a run that dispatches, let \<open>g\<close> be the file location, \<open>rp\<close> its repository
  and \<open>q\<close> the answer of the status query for the picked reference \<open>r\<close>. The command scans
  \<open>q\<close> for the entry whose path is the file's path relative to \<open>rp\<close> (\<^verbatim>\<open>files.find\<close>, the
  first such entry). If that entry has an original path, the left-hand uri is that original
  path made absolute in \<open>rp\<close> and the left-hand title is its basename followed by the
  shortened \<open>r\<close> in parentheses. Otherwise (null answer, no such entry, or an entry without
  an original path) the left-hand uri is \<open>g\<close> and the title is built from the basename of
  the path of \<open>g\<close>.\<close>

theorem rename_first_match:
  fixes env :: "('u, 'so) env" and editor uri0 args h
  defines "R \<equiv> execute env editor uri0 args h"
  assumes "FromUri u (Inr g) \<in> set (events R)"
    and "GetDiffStatus rp a r fl q \<in> set (events R)"
    and "ExecuteCommand c req res \<in> set (events R)"
  shows "uri_repoPath env g = Some rp \<and> repoPath req = rp \<and>
    (q = Inr (Some fs) \<and> find (\<lambda>s. path s = getRelativePath env g rp) fs = Some s \<and>
        originalPath s = Some orig \<longrightarrow>
        uri (lhs req) = getAbsoluteUri env orig rp \<and>
        title (lhs req) = Some (basename env orig @ '' ('' @ shortenRevision env r @ '')'')) \<and>
    ((\<nexists>fs s orig.
        q = Inr (Some fs) \<and> find (\<lambda>s. path s = getRelativePath env g rp) fs = Some s \<and>
        originalPath s = Some orig) \<longrightarrow>
        uri (lhs req) = g \<and>
        title (lhs req) = Some (basename env (uri_fsPath env g) @ '' ('' @ shortenRevision env r @ '')''))"
proof (cases rule: execute_cases [of env editor uri0 args h])
  case (dispatched u' g' rp' pk r' s' fls req')
  with assms have eqs: "g' = g" "rp' = rp" "r' = r" "q = Inr fls" "req = req'"
    by (simp_all add: run_simps pick_event_distinct)
  show ?thesis
    using dispatched(1,6) unfolding eqs
    by (auto simp: request_sel renamed_found renamed_not_found revision_title_def)
qed (use assms in \<open>simp_all add: run_simps pick_event_distinct\<close>)

text \<open>At the remote branch \<^verbatim>\<open>origin/main\<close>, where \<^verbatim>\<open>a.ts\<close> was \<^verbatim>\<open>old/a.ts\<close>.\<close>

theorem rename_first_match_witness:
  "FromUri ''/repo/a.ts'' (Inr ''/repo/a.ts'')
     \<in> set (events (execute env_remote None (Some ''/repo/a.ts'') None [])) \<and>
   GetDiffStatus ''/repo'' ''HEAD'' ''origin/main'' [''R'', ''C'']
       (Inr (Some [\<lparr>path = ''b.ts'', originalPath = Some ''c.ts''\<rparr>,
                   \<lparr>path = ''a.ts'', originalPath = Some ''old/a.ts''\<rparr>]))
     \<in> set (events (execute env_remote None (Some ''/repo/a.ts'') None [])) \<and>
   ExecuteCommand ''gitlens.diffWith''
       (demo_request ''remotes/origin/main'' ''/repo/old/a.ts'' ''a.ts (origin/main)'' 0) (Inr ())
     \<in> set (events (execute env_remote None (Some ''/repo/a.ts'') None [])) \<and>
   find (\<lambda>s. path s = getRelativePath env_remote ''/repo/a.ts'' ''/repo'')
       [\<lparr>path = ''b.ts'', originalPath = Some ''c.ts''\<rparr>,
        \<lparr>path = ''a.ts'', originalPath = Some ''old/a.ts''\<rparr>]
     = Some \<lparr>path = ''a.ts'', originalPath = Some ''old/a.ts''\<rparr> \<and>
   uri (lhs (demo_request ''remotes/origin/main'' ''/repo/old/a.ts'' ''a.ts (origin/main)'' 0))
     = getAbsoluteUri env_remote ''old/a.ts'' ''/repo'' \<and>
   title (lhs (demo_request ''remotes/origin/main'' ''/repo/old/a.ts'' ''a.ts (origin/main)'' 0))
     = Some (basename env_remote ''old/a.ts'' @ '' ('' @ shortenRevision env_remote ''origin/main'' @ '')'')"
proof -
  have h1: "FromUri ''/repo/a.ts'' (Inr ''/repo/a.ts'')
     \<in> set (events (execute env_remote None (Some ''/repo/a.ts'') None []))"
    by (simp add: run_remote events_def)
  have h2: "GetDiffStatus ''/repo'' ''HEAD'' ''origin/main'' [''R'', ''C'']
       (Inr (Some [\<lparr>path = ''b.ts'', originalPath = Some ''c.ts''\<rparr>,
                   \<lparr>path = ''a.ts'', originalPath = Some ''old/a.ts''\<rparr>]))
     \<in> set (events (execute env_remote None (Some ''/repo/a.ts'') None []))"
    by (simp add: run_remote events_def)
  have h3: "ExecuteCommand ''gitlens.diffWith''
       (demo_request ''remotes/origin/main'' ''/repo/old/a.ts'' ''a.ts (origin/main)'' 0) (Inr ())
     \<in> set (events (execute env_remote None (Some ''/repo/a.ts'') None []))"
    by (simp add: run_remote events_def)
  have f: "find (\<lambda>s. path s = getRelativePath env_remote ''/repo/a.ts'' ''/repo'')
       [\<lparr>path = ''b.ts'', originalPath = Some ''c.ts''\<rparr>,
        \<lparr>path = ''a.ts'', originalPath = Some ''old/a.ts''\<rparr>]
     = Some \<lparr>path = ''a.ts'', originalPath = Some ''old/a.ts''\<rparr>"
    by (simp add: demo_defs)
  from rename_first_match [OF h1 h2 h3, where fs = "[\<lparr>path = ''b.ts'', originalPath = Some ''c.ts''\<rparr>,
        \<lparr>path = ''a.ts'', originalPath = Some ''old/a.ts''\<rparr>]"
      and s = "\<lparr>path = ''a.ts'', originalPath = Some ''old/a.ts''\<rparr>" and orig = "''old/a.ts''"]
  show ?thesis
    using h1 h2 h3 f by simp
qed



text \<open>C3, as amended. The status query is issued for the repository of the file, between
  \<^verbatim>\<open>HEAD\<close> and the reference of the pick as the picker returned it (for a remote branch
  without the \<^verbatim>\<open>remotes/\<close> prefix of the left-hand sha), with the filters \<^verbatim>\<open>R\<close> and
  \<^verbatim>\<open>C\<close>.\<close>

theorem diff_status_query:
  fixes env :: "('u, 'so) env" and editor uri0 args h
  defines "R \<equiv> execute env editor uri0 args h"
  assumes "GetDiffStatus rp a b fl q \<in> set (events R)"
  shows "a = ''HEAD'' \<and> fl = [''R'', ''C''] \<and> q = getDiffStatus env rp a b fl \<and>
         (\<exists>u g. FromUri u (Inr g) \<in> set (events R) \<and> uri_repoPath env g = Some rp) \<and>
         ((\<exists>t ph ar pick. ShowReferencePicker rp t ph ar (Inr (Some pick)) \<in> set (events R) \<and>
              ref pick = Some b) \<or>
          (\<exists>st t ph em flt pick. ShowStashPicker st t ph em flt (Inr (Some pick)) \<in> set (events R) \<and>
              stash_ref pick = Some b))"
  using assms
  by (cases rule: execute_cases [of env editor uri0 args h])
     (auto simp: run_simps pick_simps pick_event_distinct)

theorem diff_status_query_witness:
  "GetDiffStatus ''/repo'' ''HEAD'' ''origin/main'' [''R'', ''C'']
       (Inr (Some [\<lparr>path = ''b.ts'', originalPath = Some ''c.ts''\<rparr>,
                   \<lparr>path = ''a.ts'', originalPath = Some ''old/a.ts''\<rparr>]))
     \<in> set (events (execute env_remote None (Some ''/repo/a.ts'') None [])) \<and>
   (\<exists>t ph ar pick.
      ShowReferencePicker ''/repo'' t ph ar (Inr (Some pick))
        \<in> set (events (execute env_remote None (Some ''/repo/a.ts'') None [])) \<and>
      ref pick = Some ''origin/main'')"
proof -
  have h: "GetDiffStatus ''/repo'' ''HEAD'' ''origin/main'' [''R'', ''C'']
       (Inr (Some [\<lparr>path = ''b.ts'', originalPath = Some ''c.ts''\<rparr>,
                   \<lparr>path = ''a.ts'', originalPath = Some ''old/a.ts''\<rparr>]))
     \<in> set (events (execute env_remote None (Some ''/repo/a.ts'') None []))"
    by (simp add: run_remote events_def)
  have n: "ShowStashPicker st t ph em flt (Inr (Some pick))
     \<notin> set (events (execute env_remote None (Some ''/repo/a.ts'') None []))" for st t ph em flt pick
    by (simp add: run_remote events_def)
  from diff_status_query [OF h] n h show ?thesis
    by blast
qed

text \<open>The claim as it is stated fails at a remote branch: the left-hand sha is
  \<^verbatim>\<open>remotes/origin/main\<close> and the status query is issued for \<^verbatim>\<open>origin/main\<close>.\<close>

theorem diff_status_query_counterexample:
  "events (execute env_remote None (Some ''/repo/a.ts'') None []) ! 2 =
     GetDiffStatus ''/repo'' ''HEAD'' ''origin/main'' [''R'', ''C'']
       (Inr (Some [\<lparr>path = ''b.ts'', originalPath = Some ''c.ts''\<rparr>,
                   \<lparr>path = ''a.ts'', originalPath = Some ''old/a.ts''\<rparr>])) \<and>
   events (execute env_remote None (Some ''/repo/a.ts'') None []) ! 3 =
     ExecuteCommand ''gitlens.diffWith''
       (demo_request ''remotes/origin/main'' ''/repo/old/a.ts'' ''a.ts (origin/main)'' 0) (Inr ()) \<and>
   sha (lhs (demo_request ''remotes/origin/main'' ''/repo/old/a.ts'' ''a.ts (origin/main)'' 0))
     = ''remotes/origin/main'' \<and>
   ''origin/main'' \<noteq> ''remotes/origin/main''"
  by (simp add: run_remote events_def demo_request_def eval_nat_numeral)

text \<open>C4. If a picker returns no selection, the command returns normally, and it has
  dispatched no request, shown no warning message and issued no status query.\<close>

theorem cancellation:
  fixes env :: "('u, 'so) env" and editor uri0 args h
  defines "R \<equiv> execute env editor uri0 args h"
  assumes "ShowStashPicker st t ph em flt (Inr None) \<in> set (events R) \<or>
           ShowReferencePicker rp t' ph' ar (Inr None) \<in> set (events R)"
  shows "outcome R = Inr () \<and>
         (\<forall>c req res. ExecuteCommand c req res \<notin> set (events R)) \<and>
         (\<forall>m. ShowNoRepositoryWarningMessage m \<notin> set (events R)) \<and>
         (\<forall>rp' a b fl q. GetDiffStatus rp' a b fl q \<notin> set (events R))"
  using assms
  by (cases rule: execute_cases [of env editor uri0 args h])
     (auto simp: run_simps pick_simps pick_event_distinct)

theorem cancellation_witness:
  "(ShowStashPicker None [] [] [] (\<lambda>c. True) (Inr None)
      \<in> set (events (execute demo_env None (Some ''/repo/a.ts'') None [])) \<or>
    ShowReferencePicker ''/repo'' ''Open Changes with Branch or Tag  .  a.ts''
        ''Choose a reference (branch, tag, etc) to compare with'' True (Inr None)
      \<in> set (events (execute demo_env None (Some ''/repo/a.ts'') None []))) \<and>
   outcome (execute demo_env None (Some ''/repo/a.ts'') None []) = Inr () \<and>
   (\<forall>c req res. ExecuteCommand c req res
      \<notin> set (events (execute demo_env None (Some ''/repo/a.ts'') None []))) \<and>
   (\<forall>m. ShowNoRepositoryWarningMessage m
      \<notin> set (events (execute demo_env None (Some ''/repo/a.ts'') None []))) \<and>
   (\<forall>rp' a b fl q. GetDiffStatus rp' a b fl q
      \<notin> set (events (execute demo_env None (Some ''/repo/a.ts'') None [])))"
proof -
  have h: "ShowStashPicker None [] [] [] (\<lambda>c. True) (Inr None)
      \<in> set (events (execute demo_env None (Some ''/repo/a.ts'') None [])) \<or>
    ShowReferencePicker ''/repo'' ''Open Changes with Branch or Tag  .  a.ts''
        ''Choose a reference (branch, tag, etc) to compare with'' True (Inr None)
      \<in> set (events (execute demo_env None (Some ''/repo/a.ts'') None []))"
    by (simp add: run_cancelled events_def)
  show ?thesis
    by (rule conjI [OF h cancellation [OF h]])
qed

text \<open>C5. The filter that the stash picker is handed accepts every stash entry whose file
  list is null; an entry with a file list is accepted if and only if some file of the list
  has the file's repository-relative path as its path or as its original path.\<close>

theorem stash_filter_permissive:
  fixes env :: "('u, 'so) env" and editor uri0 args h
  defines "R \<equiv> execute env editor uri0 args h"
  assumes "ShowStashPicker st t ph em flt res \<in> set (events R)"
    and "FromUri u (Inr g) \<in> set (events R)"
    and "uri_repoPath env g = Some rp"
  shows "flt = stash_filter (getRelativePath env g rp) \<and>
         (files c = None \<longrightarrow> flt c) \<and>
         (files c = Some fs \<longrightarrow>
            flt c = (\<exists>f\<in>set fs. path f = getRelativePath env g rp \<or>
                                 originalPath f = Some (getRelativePath env g rp)))"
  using assms
  by (cases rule: execute_cases [of env editor uri0 args h])
     (auto simp: run_simps pick_simps pick_event_distinct stash_filter_def list_ex_iff)

theorem stash_filter_permissive_witness:
  "ShowStashPicker None ''Open Changes with Stash  .  a.ts'' ''Choose a stash to compare with''
       (''No stashes with '' @ [CHR 0x27] @ ''a.ts'' @ [CHR 0x27] @ '' found'')
       (stash_filter ''a.ts'')
       (Inr (Some \<lparr>stash_ref = Some ''4f2a91cd3e'', files = None\<rparr>))
     \<in> set (events (execute env_stash
           (Some \<lparr>document_uri = ''/repo/a.ts'', selection_active_line = 7\<rparr>) None
           (Some 0) [\<lparr>line = None, showOptions = None, stash = Some True\<rparr>])) \<and>
   FromUri ''/repo/a.ts'' (Inr ''/repo/a.ts'')
     \<in> set (events (execute env_stash
           (Some \<lparr>document_uri = ''/repo/a.ts'', selection_active_line = 7\<rparr>) None
           (Some 0) [\<lparr>line = None, showOptions = None, stash = Some True\<rparr>])) \<and>
   uri_repoPath env_stash ''/repo/a.ts'' = Some ''/repo'' \<and>
   getRelativePath env_stash ''/repo/a.ts'' ''/repo'' = ''a.ts'' \<and>
   stash_filter ''a.ts'' \<lparr>stash_ref = Some ''4f2a91cd3e'', files = None\<rparr> \<and>
   stash_filter ''a.ts''
     \<lparr>stash_ref = Some ''77aa01b2c3'',
      files = Some [\<lparr>path = ''b.ts'', originalPath = Some ''a.ts''\<rparr>]\<rparr> \<and>
   \<not> stash_filter ''a.ts''
     \<lparr>stash_ref = Some ''9c0d1e2f3a'',
      files = Some [\<lparr>path = ''b.ts'', originalPath = None\<rparr>]\<rparr>"
proof -
  have h1: "ShowStashPicker None ''Open Changes with Stash  .  a.ts'' ''Choose a stash to compare with''
       (''No stashes with '' @ [CHR 0x27] @ ''a.ts'' @ [CHR 0x27] @ '' found'')
       (stash_filter ''a.ts'')
       (Inr (Some \<lparr>stash_ref = Some ''4f2a91cd3e'', files = None\<rparr>))
     \<in> set (events (execute env_stash
           (Some \<lparr>document_uri = ''/repo/a.ts'', selection_active_line = 7\<rparr>) None
           (Some 0) [\<lparr>line = None, showOptions = None, stash = Some True\<rparr>]))"
    by (simp add: run_stash events_def)
  have h2: "FromUri ''/repo/a.ts'' (Inr ''/repo/a.ts'')
     \<in> set (events (execute env_stash
           (Some \<lparr>document_uri = ''/repo/a.ts'', selection_active_line = 7\<rparr>) None
           (Some 0) [\<lparr>line = None, showOptions = None, stash = Some True\<rparr>]))"
    by (simp add: run_stash events_def)
  have h3: "uri_repoPath env_stash ''/repo/a.ts'' = Some ''/repo''"
    by (simp add: demo_defs)
  have p: "getRelativePath env_stash ''/repo/a.ts'' ''/repo'' = ''a.ts''"
    by (simp add: demo_defs)
  note th = stash_filter_permissive [OF h1 h2 h3]
  from th [of "\<lparr>stash_ref = Some ''4f2a91cd3e'', files = None\<rparr>" "[]"]
  have c1: "stash_filter ''a.ts'' \<lparr>stash_ref = Some ''4f2a91cd3e'', files = None\<rparr>"
    by (simp add: p)
  from th [of "\<lparr>stash_ref = Some ''77aa01b2c3'',
      files = Some [\<lparr>path = ''b.ts'', originalPath = Some ''a.ts''\<rparr>]\<rparr>"
      "[\<lparr>path = ''b.ts'', originalPath = Some ''a.ts''\<rparr>]"]
  have c2: "stash_filter ''a.ts'' \<lparr>stash_ref = Some ''77aa01b2c3'',
      files = Some [\<lparr>path = ''b.ts'', originalPath = Some ''a.ts''\<rparr>]\<rparr>"
    by (simp add: p)
  from th [of "\<lparr>stash_ref = Some ''9c0d1e2f3a'',
      files = Some [\<lparr>path = ''b.ts'', originalPath = None\<rparr>]\<rparr>"
      "[\<lparr>path = ''b.ts'', originalPath = None\<rparr>]"]
  have c3: "\<not> stash_filter ''a.ts'' \<lparr>stash_ref = Some ''9c0d1e2f3a'',
      files = Some [\<lparr>path = ''b.ts'', originalPath = None\<rparr>]\<rparr>"
    by (simp add: p)
  from h1 h2 h3 p c1 c2 c3 show ?thesis
    by (intro conjI)
qed

text \<open>C6. When the location of the file has no repository path (undefined, or the empty
  string, which the test of line 34 takes for none as well), the command shows the warning
  \<^verbatim>\<open>Unable to open file comparison\<close> and returns: it does nothing else, asks nothing
  again, and leaves the store as it was.\<close>

theorem no_repository:
  fixes env :: "('u, 'so) env" and editor uri0 args h
  defines "R \<equiv> execute env editor uri0 args h"
  assumes "FromUri u (Inr g) \<in> set (events R)"
    and "uri_repoPath env g = None \<or> uri_repoPath env g = Some []"
  shows "events R =
           [FromUri u (Inr g), ShowNoRepositoryWarningMessage ''Unable to open file comparison''] \<and>
         outcome R = Inr () \<and> store R = h"
  using assms
  by (cases rule: execute_cases [of env editor uri0 args h])
     (auto simp: run_simps pick_event_distinct)

theorem no_repository_witness:
  "FromUri ''/tmp/a.ts'' (Inr ''/tmp/a.ts'')
     \<in> set (events (execute demo_env None (Some ''/tmp/a.ts'') None [])) \<and>
   (uri_repoPath demo_env ''/tmp/a.ts'' = None \<or> uri_repoPath demo_env ''/tmp/a.ts'' = Some []) \<and>
   events (execute demo_env None (Some ''/tmp/a.ts'') None []) =
     [FromUri ''/tmp/a.ts'' (Inr ''/tmp/a.ts''),
      ShowNoRepositoryWarningMessage ''Unable to open file comparison''] \<and>
   outcome (execute demo_env None (Some ''/tmp/a.ts'') None []) = Inr () \<and>
   store (execute demo_env None (Some ''/tmp/a.ts'') None []) = []"
proof -
  have h1: "FromUri ''/tmp/a.ts'' (Inr ''/tmp/a.ts'')
     \<in> set (events (execute demo_env None (Some ''/tmp/a.ts'') None []))"
    by (simp add: run_no_repository events_def)
  have h2: "uri_repoPath demo_env ''/tmp/a.ts'' = None \<or> uri_repoPath demo_env ''/tmp/a.ts'' = Some []"
    by (simp add: demo_defs)
  show ?thesis
    by (intro conjI h1 h2 no_repository [OF h1 h2, THEN conjunct1]
          no_repository [OF h1 h2, THEN conjunct2, THEN conjunct1]
          no_repository [OF h1 h2, THEN conjunct2, THEN conjunct2])
qed

text \<open>C7. In every dispatched request the right-hand sha is the empty string and the
  right-hand uri is the location of the file, as \<^verbatim>\<open>GitUri.fromUri\<close> returned it.\<close>

theorem rhs_working_tree:
  fixes env :: "('u, 'so) env" and editor uri0 args h
  defines "R \<equiv> execute env editor uri0 args h"
  assumes "ExecuteCommand c req res \<in> set (events R)"
    and "FromUri u (Inr g) \<in> set (events R)"
  shows "sha (rhs req) = [] \<and> uri (rhs req) = g"
  using assms
  by (cases rule: execute_cases [of env editor uri0 args h])
     (auto simp: run_simps pick_event_distinct request_sel)

theorem rhs_working_tree_witness:
  "ExecuteCommand ''gitlens.diffWith''
       (demo_request ''remotes/origin/main'' ''/repo/old/a.ts'' ''a.ts (origin/main)'' 0) (Inr ())
     \<in> set (events (execute env_remote None (Some ''/repo/a.ts'') None [])) \<and>
   FromUri ''/repo/a.ts'' (Inr ''/repo/a.ts'')
     \<in> set (events (execute env_remote None (Some ''/repo/a.ts'') None [])) \<and>
   sha (rhs (demo_request ''remotes/origin/main'' ''/repo/old/a.ts'' ''a.ts (origin/main)'' 0)) = [] \<and>
   uri (rhs (demo_request ''remotes/origin/main'' ''/repo/old/a.ts'' ''a.ts (origin/main)'' 0))
     = ''/repo/a.ts''"
proof -
  have h1: "ExecuteCommand ''gitlens.diffWith''
       (demo_request ''remotes/origin/main'' ''/repo/old/a.ts'' ''a.ts (origin/main)'' 0) (Inr ())
     \<in> set (events (execute env_remote None (Some ''/repo/a.ts'') None []))"
    by (simp add: run_remote events_def)
  have h2: "FromUri ''/repo/a.ts'' (Inr ''/repo/a.ts'')
     \<in> set (events (execute env_remote None (Some ''/repo/a.ts'') None []))"
    by (simp add: run_remote events_def)
  show ?thesis
    by (intro conjI h1 h2 rhs_working_tree [OF h1 h2, THEN conjunct1]
          rhs_working_tree [OF h1 h2, THEN conjunct2])
qed

text \<open>C8. The title of either picker is its fixed prefix followed by the file name
  formatted with \<^verbatim>\<open>truncateTo\<close> set to \<^verbatim>\<open>quickPickTitleMaxChars\<close> minus the length of
  the prefix. Where the name formatted with that \<^verbatim>\<open>truncateTo\<close> is no longer than it, the
  title is no longer than \<^verbatim>\<open>quickPickTitleMaxChars\<close>.\<close>

theorem picker_title_bound:
  fixes env :: "('u, 'so) env" and editor uri0 args h
  defines "R \<equiv> execute env editor uri0 args h"
  assumes "FromUri u (Inr g) \<in> set (events R)"
    and "truncates env g (quickPickTitleMaxChars env - int (length (stash_title env)))"
    and "truncates env g (quickPickTitleMaxChars env - int (length (reference_title env)))"
  shows "(ShowStashPicker st t ph em flt res \<in> set (events R) \<longrightarrow>
            t = stash_title env @ getFormattedFileName env g
                  (Some (quickPickTitleMaxChars env - int (length (stash_title env)))) \<and>
            int (length t) \<le> quickPickTitleMaxChars env) \<and>
         (ShowReferencePicker rp t' ph' ar res' \<in> set (events R) \<longrightarrow>
            t' = reference_title env @ getFormattedFileName env g
                  (Some (quickPickTitleMaxChars env - int (length (reference_title env)))) \<and>
            int (length t') \<le> quickPickTitleMaxChars env)"
proof -
  have bound: "int (length (picker_title env x g)) \<le> quickPickTitleMaxChars env"
    if "truncates env g (quickPickTitleMaxChars env - int (length x))" for x
    using that by (simp add: truncates_def picker_title_def)
  have title: "picker_title env x g =
      x @ getFormattedFileName env g (Some (quickPickTitleMaxChars env - int (length x)))" for x
    by (simp add: picker_title_def)
  from assms(2) bound [OF assms(3)] bound [OF assms(4)] show ?thesis
    by (cases rule: execute_cases [of env editor uri0 args h])
       (auto simp: R_def run_simps pick_simps pick_event_distinct title [symmetric])
qed

text \<open>At a file whose name has 76 code units: the title has 80.\<close>

theorem picker_title_bound_witness:
  "FromUri long_uri (Inr long_uri) \<in> set (events (execute demo_env None (Some long_uri) None [])) \<and>
   truncates demo_env long_uri (quickPickTitleMaxChars demo_env - int (length (stash_title demo_env))) \<and>
   truncates demo_env long_uri
     (quickPickTitleMaxChars demo_env - int (length (reference_title demo_env))) \<and>
   ShowReferencePicker ''/repo'' long_title
       ''Choose a reference (branch, tag, etc) to compare with'' True (Inr None)
     \<in> set (events (execute demo_env None (Some long_uri) None [])) \<and>
   int (length long_title) \<le> quickPickTitleMaxChars demo_env \<and>
   length long_title = 80"
proof -
  have h1: "FromUri long_uri (Inr long_uri)
      \<in> set (events (execute demo_env None (Some long_uri) None []))"
    by (simp add: run_long events_def)
  have h2: "truncates demo_env long_uri
      (quickPickTitleMaxChars demo_env - int (length (stash_title demo_env)))"
    by (simp add: truncates_def stash_title_def demo_env_def)
  have h3: "truncates demo_env long_uri
      (quickPickTitleMaxChars demo_env - int (length (reference_title demo_env)))"
    by (simp add: truncates_def reference_title_def demo_env_def)
  have h4: "ShowReferencePicker ''/repo'' long_title
       ''Choose a reference (branch, tag, etc) to compare with'' True (Inr None)
     \<in> set (events (execute demo_env None (Some long_uri) None []))"
    by (simp add: run_long events_def)
  have l: "length long_title = 80"
    by (simp add: long_title_def)
  from picker_title_bound [OF h1 h2 h3, where rp = "''/repo''" and t' = long_title
      and ph' = "''Choose a reference (branch, tag, etc) to compare with''" and ar = True
      and res' = "Inr None"] h4
  have "int (length long_title) \<le> quickPickTitleMaxChars demo_env"
    by simp
  with h1 h2 h3 h4 l show ?thesis
    by (intro conjI)
qed

text \<open>C9. Whenever a picker, the stash picker included, returns a pick with a non-null
  reference \<open>b\<close>, the status query for \<open>b\<close> is among the events of the run and no request
  is dispatched before it. A request dispatched in that run is built from the answer \<open>q\<close>
  of that query: if the first entry of \<open>q\<close> with the file's relative path has an original
  path, the left-hand uri and title are those of the original path, and otherwise they are
  those of the file location \<open>g\<close>.\<close>

theorem rename_check_always:
  fixes env :: "('u, 'so) env" and editor uri0 args h
  defines "R \<equiv> execute env editor uri0 args h"
  assumes "ShowStashPicker st t ph em flt (Inr (Some sp)) \<in> set (events R) \<and> stash_ref sp = Some b \<or>
           ShowReferencePicker rp' t' ph' ar (Inr (Some pick)) \<in> set (events R) \<and> ref pick = Some b"
  shows "(\<exists>pre rp q post.
            events R = pre @ GetDiffStatus rp ''HEAD'' b [''R'', ''C''] q # post \<and>
            (\<forall>c req res. ExecuteCommand c req res \<notin> set pre)) \<and>
         (FromUri u (Inr g) \<in> set (events R) \<and> GetDiffStatus rp a b fl q \<in> set (events R) \<and>
          ExecuteCommand c req res \<in> set (events R) \<longrightarrow>
            q = getDiffStatus env rp a b fl \<and>
            (q = Inr (Some fs) \<and> find (\<lambda>s. path s = getRelativePath env g rp) fs = Some s \<and>
             originalPath s = Some orig \<longrightarrow>
               uri (lhs req) = getAbsoluteUri env orig rp \<and>
               title (lhs req) = Some (basename env orig @ '' ('' @ shortenRevision env b @ '')'')) \<and>
            ((\<nexists>fs s orig.
               q = Inr (Some fs) \<and> find (\<lambda>s. path s = getRelativePath env g rp) fs = Some s \<and>
               originalPath s = Some orig) \<longrightarrow>
               uri (lhs req) = g \<and>
               title (lhs req) =
                 Some (basename env (uri_fsPath env g) @ '' ('' @ shortenRevision env b @ '')'')))"
proof (cases rule: execute_cases [of env editor uri0 args h])
  case (status_rejected u' g' rp'' pk r0 s0 e)
  with assms have "r0 = b"
    by (auto simp: run_simps pick_simps pick_event_distinct)
  with status_rejected have "\<exists>pre rp q post.
            events R = pre @ GetDiffStatus rp ''HEAD'' b [''R'', ''C''] q # post \<and>
            (\<forall>c req res. ExecuteCommand c req res \<notin> set pre)"
    by (intro exI [of _ "[FromUri u' (Inr g'), snd pk]"] exI [of _ rp''] exI [of _ "Inl e"]
          exI [of _ "[]"])
       (simp add: R_def run_simps pick_event_distinct)
  moreover from status_rejected have "ExecuteCommand c req res \<notin> set (events R)"
    by (simp add: R_def run_simps pick_event_distinct)
  ultimately show ?thesis
    by blast
next
  case (dispatched u' g' rp'' pk r0 s0 fls req')
  with assms have rb: "r0 = b"
    by (auto simp: run_simps pick_simps pick_event_distinct)
  with dispatched have order: "\<exists>pre rp q post.
            events R = pre @ GetDiffStatus rp ''HEAD'' b [''R'', ''C''] q # post \<and>
            (\<forall>c req res. ExecuteCommand c req res \<notin> set pre)"
    by (intro exI [of _ "[FromUri u' (Inr g'), snd pk]"] exI [of _ rp''] exI [of _ "Inr fls"]
          exI [of _ "[ExecuteCommand ''gitlens.diffWith'' req'
                        (executeCommand env ''gitlens.diffWith'' req')]"])
       (simp add: R_def run_simps pick_event_distinct)
  have built: "q = getDiffStatus env rp a b fl \<and>
            (q = Inr (Some fs) \<and> find (\<lambda>s. path s = getRelativePath env g rp) fs = Some s \<and>
             originalPath s = Some orig \<longrightarrow>
               uri (lhs req) = getAbsoluteUri env orig rp \<and>
               title (lhs req) = Some (basename env orig @ '' ('' @ shortenRevision env b @ '')'')) \<and>
            ((\<nexists>fs s orig.
               q = Inr (Some fs) \<and> find (\<lambda>s. path s = getRelativePath env g rp) fs = Some s \<and>
               originalPath s = Some orig) \<longrightarrow>
               uri (lhs req) = g \<and>
               title (lhs req) =
                 Some (basename env (uri_fsPath env g) @ '' ('' @ shortenRevision env b @ '')''))"
    if ev: "FromUri u (Inr g) \<in> set (events R)" "GetDiffStatus rp a b fl q \<in> set (events R)"
      "ExecuteCommand c req res \<in> set (events R)"
  proof -
    from ev dispatched have eqs: "g' = g" "rp'' = rp" "a = ''HEAD''" "fl = [''R'', ''C'']"
        "q = Inr fls" "req = req'"
      by (simp_all add: R_def run_simps pick_event_distinct)
    show ?thesis
      using dispatched(5,6) unfolding eqs rb
      by (auto simp: request_sel renamed_def revision_title_def split: option.splits)
  qed
  from order built show ?thesis
    by blast
qed (use assms in \<open>auto simp: run_simps pick_simps pick_event_distinct\<close>)

text \<open>At a stash pick where \<^verbatim>\<open>a.ts\<close> was \<^verbatim>\<open>old/a.ts\<close>: the request has the original
  path on its left-hand side.\<close>

theorem rename_check_always_witness:
  "(ShowStashPicker None ''Open Changes with Stash  .  a.ts'' ''Choose a stash to compare with''
       (''No stashes with '' @ [CHR 0x27] @ ''a.ts'' @ [CHR 0x27] @ '' found'')
       (stash_filter ''a.ts'')
       (Inr (Some \<lparr>stash_ref = Some ''4f2a91cd3e'', files = None\<rparr>))
     \<in> set (events (execute env_stash_renamed None (Some ''/repo/a.ts'') (Some 0)
           [\<lparr>line = None, showOptions = None, stash = Some True\<rparr>])) \<and>
    stash_ref \<lparr>stash_ref = Some ''4f2a91cd3e'', files = None\<rparr> = Some ''4f2a91cd3e'' \<or>
    ShowReferencePicker [] [] [] True
       (Inr (Some \<lparr>refType = [], ref = Some ''4f2a91cd3e'', remote = False\<rparr>))
     \<in> set (events (execute env_stash_renamed None (Some ''/repo/a.ts'') (Some 0)
           [\<lparr>line = None, showOptions = None, stash = Some True\<rparr>])) \<and>
    ref \<lparr>refType = [], ref = Some ''4f2a91cd3e'', remote = False\<rparr> = Some ''4f2a91cd3e'') \<and>
   (\<exists>pre rp q post.
      events (execute env_stash_renamed None (Some ''/repo/a.ts'') (Some 0)
           [\<lparr>line = None, showOptions = None, stash = Some True\<rparr>])
        = pre @ GetDiffStatus rp ''HEAD'' ''4f2a91cd3e'' [''R'', ''C''] q # post \<and>
      (\<forall>c req res. ExecuteCommand c req res \<notin> set pre)) \<and>
   FromUri ''/repo/a.ts'' (Inr ''/repo/a.ts'')
     \<in> set (events (execute env_stash_renamed None (Some ''/repo/a.ts'') (Some 0)
           [\<lparr>line = None, showOptions = None, stash = Some True\<rparr>])) \<and>
   GetDiffStatus ''/repo'' ''HEAD'' ''4f2a91cd3e'' [''R'', ''C'']
       (Inr (Some [\<lparr>path = ''b.ts'', originalPath = Some ''c.ts''\<rparr>,
                   \<lparr>path = ''a.ts'', originalPath = Some ''old/a.ts''\<rparr>]))
     \<in> set (events (execute env_stash_renamed None (Some ''/repo/a.ts'') (Some 0)
           [\<lparr>line = None, showOptions = None, stash = Some True\<rparr>])) \<and>
   ExecuteCommand ''gitlens.diffWith''
       (demo_request ''4f2a91cd3e'' ''/repo/old/a.ts'' ''a.ts (4f2a91cd3e)'' 0) (Inr ())
     \<in> set (events (execute env_stash_renamed None (Some ''/repo/a.ts'') (Some 0)
           [\<lparr>line = None, showOptions = None, stash = Some True\<rparr>])) \<and>
   find (\<lambda>s. path s = getRelativePath env_stash_renamed ''/repo/a.ts'' ''/repo'')
       [\<lparr>path = ''b.ts'', originalPath = Some ''c.ts''\<rparr>,
        \<lparr>path = ''a.ts'', originalPath = Some ''old/a.ts''\<rparr>]
     = Some \<lparr>path = ''a.ts'', originalPath = Some ''old/a.ts''\<rparr> \<and>
   uri (lhs (demo_request ''4f2a91cd3e'' ''/repo/old/a.ts'' ''a.ts (4f2a91cd3e)'' 0))
     = getAbsoluteUri env_stash_renamed ''old/a.ts'' ''/repo'' \<and>
   title (lhs (demo_request ''4f2a91cd3e'' ''/repo/old/a.ts'' ''a.ts (4f2a91cd3e)'' 0))
     = Some (basename env_stash_renamed ''old/a.ts'' @ '' ('' @
             shortenRevision env_stash_renamed ''4f2a91cd3e'' @ '')'')"
proof -
  have h: "ShowStashPicker None ''Open Changes with Stash  .  a.ts'' ''Choose a stash to compare with''
       (''No stashes with '' @ [CHR 0x27] @ ''a.ts'' @ [CHR 0x27] @ '' found'')
       (stash_filter ''a.ts'')
       (Inr (Some \<lparr>stash_ref = Some ''4f2a91cd3e'', files = None\<rparr>))
     \<in> set (events (execute env_stash_renamed None (Some ''/repo/a.ts'') (Some 0)
           [\<lparr>line = None, showOptions = None, stash = Some True\<rparr>])) \<and>
    stash_ref \<lparr>stash_ref = Some ''4f2a91cd3e'', files = None\<rparr> = Some ''4f2a91cd3e'' \<or>
    ShowReferencePicker [] [] [] True
       (Inr (Some \<lparr>refType = [], ref = Some ''4f2a91cd3e'', remote = False\<rparr>))
     \<in> set (events (execute env_stash_renamed None (Some ''/repo/a.ts'') (Some 0)
           [\<lparr>line = None, showOptions = None, stash = Some True\<rparr>])) \<and>
    ref \<lparr>refType = [], ref = Some ''4f2a91cd3e'', remote = False\<rparr> = Some ''4f2a91cd3e''"
    by (simp add: run_stash_renamed events_def)
  have h1: "FromUri ''/repo/a.ts'' (Inr ''/repo/a.ts'')
     \<in> set (events (execute env_stash_renamed None (Some ''/repo/a.ts'') (Some 0)
           [\<lparr>line = None, showOptions = None, stash = Some True\<rparr>]))"
    by (simp add: run_stash_renamed events_def)
  have h2: "GetDiffStatus ''/repo'' ''HEAD'' ''4f2a91cd3e'' [''R'', ''C'']
       (Inr (Some [\<lparr>path = ''b.ts'', originalPath = Some ''c.ts''\<rparr>,
                   \<lparr>path = ''a.ts'', originalPath = Some ''old/a.ts''\<rparr>]))
     \<in> set (events (execute env_stash_renamed None (Some ''/repo/a.ts'') (Some 0)
           [\<lparr>line = None, showOptions = None, stash = Some True\<rparr>]))"
    by (simp add: run_stash_renamed events_def)
  have h3: "ExecuteCommand ''gitlens.diffWith''
       (demo_request ''4f2a91cd3e'' ''/repo/old/a.ts'' ''a.ts (4f2a91cd3e)'' 0) (Inr ())
     \<in> set (events (execute env_stash_renamed None (Some ''/repo/a.ts'') (Some 0)
           [\<lparr>line = None, showOptions = None, stash = Some True\<rparr>]))"
    by (simp add: events_def model_defs demo_defs eval_nat_numeral)
  have f: "find (\<lambda>s. path s = getRelativePath env_stash_renamed ''/repo/a.ts'' ''/repo'')
       [\<lparr>path = ''b.ts'', originalPath = Some ''c.ts''\<rparr>,
        \<lparr>path = ''a.ts'', originalPath = Some ''old/a.ts''\<rparr>]
     = Some \<lparr>path = ''a.ts'', originalPath = Some ''old/a.ts''\<rparr>"
    by (simp add: demo_defs)
  note th = rename_check_always [OF h, where u = "''/repo/a.ts''" and g = "''/repo/a.ts''"
      and rp = "''/repo''" and a = "''HEAD''" and fl = "[''R'', ''C'']"
      and q = "Inr (Some [\<lparr>path = ''b.ts'', originalPath = Some ''c.ts''\<rparr>,
                          \<lparr>path = ''a.ts'', originalPath = Some ''old/a.ts''\<rparr>])"
      and c = "''gitlens.diffWith''"
      and req = "demo_request ''4f2a91cd3e'' ''/repo/old/a.ts'' ''a.ts (4f2a91cd3e)'' 0"
      and res = "Inr ()"
      and fs = "[\<lparr>path = ''b.ts'', originalPath = Some ''c.ts''\<rparr>,
                 \<lparr>path = ''a.ts'', originalPath = Some ''old/a.ts''\<rparr>]"
      and s = "\<lparr>path = ''a.ts'', originalPath = Some ''old/a.ts''\<rparr>" and orig = "''old/a.ts''"]
  from th [THEN conjunct2] h1 h2 h3 f
  have built: "uri (lhs (demo_request ''4f2a91cd3e'' ''/repo/old/a.ts'' ''a.ts (4f2a91cd3e)'' 0))
       = getAbsoluteUri env_stash_renamed ''old/a.ts'' ''/repo'' \<and>
     title (lhs (demo_request ''4f2a91cd3e'' ''/repo/old/a.ts'' ''a.ts (4f2a91cd3e)'' 0))
       = Some (basename env_stash_renamed ''old/a.ts'' @ '' ('' @
               shortenRevision env_stash_renamed ''4f2a91cd3e'' @ '')'')"
    by simp
  from h th [THEN conjunct1] h1 h2 h3 f built show ?thesis
    by (intro conjI) (erule conjunct1 conjunct2 | assumption)+
qed

text \<open>C10. The command leaves every object that was in the store as it was, the caller's
  arguments object among them: the default of the line goes to the copy of line 40, and the
  dispatched request carries the line and the show options of that copy.\<close>

theorem args_not_mutated:
  fixes env :: "('u, 'so) env" and editor uri0 args h
  defines "R \<equiv> execute env editor uri0 args h"
  shows "take (length h) (store R) = h \<and>
         (args = Some a \<and> a < length h \<longrightarrow> store R ! a = h ! a) \<and>
         (ExecuteCommand c req res \<in> set (events R) \<longrightarrow>
            dw_line req =
              Some (case line (spread h args) of
                      Some l \<Rightarrow> l
                    | None \<Rightarrow> (case editor of None \<Rightarrow> 0 | Some ed \<Rightarrow> selection_active_line ed)) \<and>
            dw_showOptions req = showOptions (spread h args))"
proof -
  have frame: "take (length h) (store R) = h"
    by (cases rule: execute_cases [of env editor uri0 args h])
       (simp_all add: R_def run_simps take_copy_args)
  have "store R ! a = h ! a" if "a < length h"
  proof -
    from that have "take (length h) (store R) ! a = store R ! a" by simp
    with frame show ?thesis by simp
  qed
  moreover have "dw_line req =
      Some (case line (spread h args) of
              Some l \<Rightarrow> l
            | None \<Rightarrow> (case editor of None \<Rightarrow> 0 | Some ed \<Rightarrow> selection_active_line ed)) \<and>
      dw_showOptions req = showOptions (spread h args)"
    if "ExecuteCommand c req res \<in> set (events R)"
    using that
    by (cases rule: execute_cases [of env editor uri0 args h])
       (auto simp: R_def run_simps pick_event_distinct request_sel line_copy_args
          showOptions_copy_args)
  ultimately show ?thesis
    using frame by blast
qed

text \<open>At the stash run: the caller's object still has no line, and the request has the
  line of the editor's selection.\<close>

theorem args_not_mutated_witness:
  "store (execute env_stash
           (Some \<lparr>document_uri = ''/repo/a.ts'', selection_active_line = 7\<rparr>) None
           (Some 0) [\<lparr>line = None, showOptions = None, stash = Some True\<rparr>]) ! 0
     = \<lparr>line = None, showOptions = None, stash = Some True\<rparr> \<and>
   ExecuteCommand ''gitlens.diffWith''
       (demo_request ''4f2a91cd3e'' ''/repo/a.ts'' ''a.ts (4f2a91cd3e)'' 7) (Inr ())
     \<in> set (events (execute env_stash
           (Some \<lparr>document_uri = ''/repo/a.ts'', selection_active_line = 7\<rparr>) None
           (Some 0) [\<lparr>line = None, showOptions = None, stash = Some True\<rparr>])) \<and>
   dw_line (demo_request ''4f2a91cd3e'' ''/repo/a.ts'' ''a.ts (4f2a91cd3e)'' 7) = Some 7"
proof -
  have h: "ExecuteCommand ''gitlens.diffWith''
       (demo_request ''4f2a91cd3e'' ''/repo/a.ts'' ''a.ts (4f2a91cd3e)'' 7) (Inr ())
     \<in> set (events (execute env_stash
           (Some \<lparr>document_uri = ''/repo/a.ts'', selection_active_line = 7\<rparr>) None
           (Some 0) [\<lparr>line = None, showOptions = None, stash = Some True\<rparr>]))"
    by (simp add: run_stash events_def)
  from args_not_mutated [where env = env_stash
      and editor = "Some \<lparr>document_uri = ''/repo/a.ts'', selection_active_line = 7\<rparr>"
      and ?uri0.0 = None and args = "Some 0"
      and h = "[\<lparr>line = None, showOptions = None, stash = Some True\<rparr>]" and a = 0
      and c = "''gitlens.diffWith''"
      and req = "demo_request ''4f2a91cd3e'' ''/repo/a.ts'' ''a.ts (4f2a91cd3e)'' 7"
      and res = "Inr ()"] h
  show ?thesis
    by (simp add: spread_def)
qed

end
